theory Spec2Isabelle
  imports Main "HOL-Library.Word" "HOL-Library.AList"
begin

section \<open>Python values and exceptions\<close>

text \<open>
  A Python \<open>str\<close> is modelled as a \<open>string\<close> (its UTF-8 bytes: the comma, the only
  character the code inspects, is a single byte that occurs in no multi-byte sequence),
  \<open>bytes\<close> as a list of 8-bit words, and a Python \<open>float\<close> as the 64 bits of its IEEE 754
  double.
\<close>

type_synonym bytes = "8 word list"

text \<open>
  The values that \<open>json_repair.loads\<close> can hand back, and that \<open>extract_invoice\<close>
  returns: \<open>None\<close>, \<open>bool\<close>, \<open>int\<close>, \<open>float\<close>, \<open>str\<close>, \<open>list\<close> and \<open>dict\<close> with
  string keys (in insertion order).
\<close>

datatype pyval =
    PNone
  | PBool bool
  | PInt int
  | PFloat "64 word"
  | PStr string
  | PList "pyval list"
  | PDict "(string \<times> pyval) list"

text \<open>
  Python's truth value test, as used by \<open>not x\<close>: \<open>None\<close>, \<open>False\<close>, zero of a numeric
  type (both \<open>0.0\<close> and \<open>-0.0\<close> for a float, that is every bit but the sign is clear)
  and empty strings, lists and dicts are false; everything else is true.
\<close>

fun truthy :: "pyval \<Rightarrow> bool" where
  "truthy PNone = False"
| "truthy (PBool b) = b"
| "truthy (PInt n) = (n \<noteq> 0)"
| "truthy (PFloat w) = (push_bit 1 w \<noteq> 0)"
| "truthy (PStr s) = (s \<noteq> [])"
| "truthy (PList xs) = (xs \<noteq> [])"
| "truthy (PDict kvs) = (kvs \<noteq> [])"

text \<open>
  Exceptions are instances of Python's \<open>Exception\<close> class, which is what an
  \<open>except Exception\<close> clause matches: FastAPI's \<open>HTTPException(status_code, detail)\<close>,
  itself a subclass of \<open>Exception\<close>, and any other one, by class name and message.
\<close>

datatype exn =
    HTTPException nat string
  | Error string string

text \<open>\<open>try: body except Exception as e: handler\<close> on the outcome of the body.\<close>

definition try_except :: "exn + 'a \<Rightarrow> (exn \<Rightarrow> exn + 'a) \<Rightarrow> exn + 'a" where
  "try_except body handler = (case body of Inl e \<Rightarrow> handler e | Inr v \<Rightarrow> Inr v)"

section \<open>The HTTP endpoint (api.py)\<close>

record ImagesRequest =
  image :: string

text \<open>\<open>s.split(sep)\<close> for a separator of one character: never an empty list.\<close>

fun py_split :: "char \<Rightarrow> string \<Rightarrow> string list" where
  "py_split sep [] = [[]]"
| "py_split sep (c # cs) =
     (if c = sep then [] # py_split sep cs
      else (case py_split sep cs of
              [] \<Rightarrow> [[c]]
            | p # ps \<Rightarrow> (c # p) # ps))"

text \<open>\<open>xs[-1]\<close>: the last element, \<open>IndexError\<close> on an empty list.\<close>

definition py_index_last :: "'a list \<Rightarrow> exn + 'a" where
  "py_index_last xs =
     (if xs = [] then Inl (Error ''IndexError'' ''list index out of range'')
      else Inr (last xs))"

text \<open>
  Line 19 of api.py:
  \<^verbatim>\<open>b64_image = request.image.split(",")[-1] if "," in request.image else request.image\<close>
\<close>

definition b64_image_of :: "ImagesRequest \<Rightarrow> exn + string" where
  "b64_image_of request =
     (if CHR '','' \<in> set (image request)
      then py_index_last (py_split CHR '','' (image request))
      else Inr (image request))"

text \<open>
  The body of the \<open>try\<close> block of \<open>process_invoice\<close> (lines 22 to 25), on the outcome
  of the call \<open>parser.extract_invoice([b64_image])\<close>: an exception of the call goes on, a
  false result raises the \<open>HTTPException\<close> of line 24, a true one is returned.
\<close>

definition try_body :: "exn + pyval \<Rightarrow> exn + pyval" where
  "try_body call =
     (case call of
        Inl e \<Rightarrow> Inl e
      | Inr invoice_data \<Rightarrow>
          if \<not> truthy invoice_data
          then Inl (HTTPException 500 ''Invoice processing failed'')
          else Inr invoice_data)"

text \<open>
  The whole \<open>try\<close> statement (lines 21 to 28): the \<open>HTTPException\<close> of line 24 is raised
  inside the \<open>try\<close>, so the \<open>except Exception\<close> clause of line 26 handles it as well.
\<close>

definition process_block :: "exn + pyval \<Rightarrow> exn + pyval" where
  "process_block call =
     try_except (try_body call) (\<lambda>e. Inl (HTTPException 500 ''Internal server error''))"

text \<open>
  \<open>process_invoice\<close> with the adapter call as a parameter: the adapter takes the list of
  images and the state of the outside world, and returns or raises. Line 19 is outside
  the \<open>try\<close>, so an exception there would leave the function as it is.
\<close>

definition process_invoice_with ::
  "(string list \<Rightarrow> 'w \<Rightarrow> (exn + pyval) \<times> 'w) \<Rightarrow> ImagesRequest \<Rightarrow> 'w \<Rightarrow> (exn + pyval) \<times> 'w" where
  "process_invoice_with adapter request w =
     (case b64_image_of request of
        Inl e \<Rightarrow> (Inl e, w)
      | Inr b64_image \<Rightarrow>
          (case adapter [b64_image] w of
             (call, w') \<Rightarrow> (process_block call, w')))"

text \<open>An HTTP response: the status code and the body.\<close>

record http_response =
  status :: nat
  body :: pyval

text \<open>
  Modelled from the spec: the web framework's rendering of the handler's outcome, which
  is not part of src/. A returned value is sent with HTTP 200 as the body; a raised
  \<open>HTTPException\<close> is sent with its status code and the body \<open>{"detail": detail}\<close>; any
  other exception leaving the handler is a plain HTTP 500.
\<close>

definition respond :: "exn + pyval \<Rightarrow> http_response" where
  "respond outcome =
     (case outcome of
        Inr v \<Rightarrow> \<lparr>status = 200, body = v\<rparr>
      | Inl (HTTPException code detail) \<Rightarrow>
          \<lparr>status = code, body = PDict [(''detail'', PStr detail)]\<rparr>
      | Inl (Error cls msg) \<Rightarrow>
          \<lparr>status = 500, body = PStr ''Internal Server Error''\<rparr>)"

section \<open>The model adapter (invoice_parser.py)\<close>

subsection \<open>The request sent to the external model\<close>

datatype part =
    Part_from_bytes string bytes
  | Part_from_text string

record content =
  role :: string
  parts :: "part list"

text \<open>The class handed over as \<open>response_schema\<close>.\<close>

datatype schema_class = InvoiceResponse

record generate_content_config =
  temperature :: "64 word"
  thinking_budget :: int
  response_mime_type :: string
  response_schema :: schema_class
  system_instruction :: "part list"

record generate_request =
  rq_model :: string
  rq_contents :: "content list"
  rq_config :: generate_content_config

text \<open>
  The reply of the external model: reading \<open>response.text\<close> gives a string or \<open>None\<close>,
  or raises.
\<close>

record generate_response =
  response_text :: "exn + string option"

text \<open>
  What the adapter uses and the repository does not contain, as parameters:
  \<open>base64.b64decode\<close> (raises on input it cannot decode), the client library
  (\<open>genai.Client\<close> and \<open>client.models.generate_content\<close>, which act on the outside
  world \<open>'w\<close>) and \<open>json_repair.loads\<close>.
\<close>

record ('c, 'w) env =
  b64decode :: "string \<Rightarrow> exn + bytes"
  genai_Client :: "string \<Rightarrow> 'w \<Rightarrow> (exn + 'c) \<times> 'w"
  generate_content :: "'c \<Rightarrow> generate_request \<Rightarrow> 'w \<Rightarrow> (exn + generate_response) \<times> 'w"
  json_repair_loads :: "string \<Rightarrow> exn + pyval"

subsection \<open>InvoiceParser\<close>

record 'c InvoiceParser =
  api_key :: string
  client :: 'c
  model :: string

definition default_model :: string where
  "default_model = ''gemini-2.5-flash''"

text \<open>\<open>a or b\<close> on optional strings: \<open>a\<close> when it is true (a non-empty string), else \<open>b\<close>.\<close>

definition py_or :: "string option \<Rightarrow> string option \<Rightarrow> string option" where
  "py_or a b = (case a of None \<Rightarrow> b | Some s \<Rightarrow> if s \<noteq> [] then Some s else b)"

text \<open>
  \<open>InvoiceParser.__init__(self, api_key=None, model="gemini-2.5-flash")\<close>, with
  \<open>os.environ\<close> as a map. A failure of \<open>genai.Client\<close> is raised again.
\<close>

definition InvoiceParser_init ::
  "('c, 'w) env \<Rightarrow> string option \<Rightarrow> string \<Rightarrow> (string \<rightharpoonup> string) \<Rightarrow> 'w
     \<Rightarrow> (exn + 'c InvoiceParser) \<times> 'w" where
  "InvoiceParser_init env api_key_arg model_arg environ w =
     (case py_or api_key_arg (environ ''GEMINI_API_KEY'') of
        None \<Rightarrow> (Inl (Error ''ValueError'' ''Gemini API key not provided''), w)
      | Some k \<Rightarrow>
          if k = [] then (Inl (Error ''ValueError'' ''Gemini API key not provided''), w)
          else (case genai_Client env k w of
                  (Inl e, w') \<Rightarrow> (Inl e, w')
                | (Inr c, w') \<Rightarrow> (Inr \<lparr>api_key = k, client = c, model = model_arg\<rparr>, w')))"

text \<open>Line 11 of api.py, run when the module is loaded: \<open>parser = InvoiceParser()\<close>.\<close>

definition api_parser ::
  "('c, 'w) env \<Rightarrow> (string \<rightharpoonup> string) \<Rightarrow> 'w \<Rightarrow> (exn + 'c InvoiceParser) \<times> 'w" where
  "api_parser env environ w = InvoiceParser_init env None default_model environ w"

text \<open>\<open>parse_json\<close>: whatever \<open>json_repair.loads\<close> returns, \<open>None\<close> when it raises.\<close>

definition parse_json :: "('c, 'w) env \<Rightarrow> string \<Rightarrow> pyval" where
  "parse_json env txt = (case json_repair_loads env txt of Inl e \<Rightarrow> PNone | Inr v \<Rightarrow> v)"

fun py_join :: "string \<Rightarrow> string list \<Rightarrow> string" where
  "py_join sep [] = []"
| "py_join sep [x] = x"
| "py_join sep (x # y # ys) = x @ sep @ py_join sep (y # ys)"

definition system_message :: string where
  "system_message = py_join [CHR 0x0A]
     [''You are a helpful assistant specialized in extracting structured data from images of Arabic VAT invoices.'',
      ''The user will provide an image of an invoice. Extract all data and combine into one JSON.'',
      ''Extract for each product: Item_ID, Item_Description, Unit_Price, Quantity, Tax, and Total_Amount.'',
      ''Also extract the invoice issue date (DD-MM-YYYY)'',
      ''Follow the exact Pydantic schema. Output JSON only '' @ [CHR 0xE2, CHR 0x80, CHR 0x94]
        @ '' no extra text or explanation.'',
      ''If invoice is in Arabic, keep all Arabic text and digits as-is.'']"

definition user_prompt :: string where
  "user_prompt = py_join [CHR 0x0A] [[]]"

text \<open>
  The list comprehension of lines 121 to 126: the images are decoded in order, and the
  first one that \<open>base64.b64decode\<close> rejects raises out of the comprehension.
\<close>

fun decode_parts :: "(string \<Rightarrow> exn + bytes) \<Rightarrow> string list \<Rightarrow> exn + part list" where
  "decode_parts dec [] = Inr []"
| "decode_parts dec (img_b64 # rest) =
     (case dec img_b64 of
        Inl e \<Rightarrow> Inl e
      | Inr d \<Rightarrow>
          (case decode_parts dec rest of
             Inl e \<Rightarrow> Inl e
           | Inr ps \<Rightarrow> Inr (Part_from_bytes ''image/jpeg'' d # ps)))"

text \<open>The request built in lines 131 to 159 from the decoded parts.\<close>

definition build_request :: "'c InvoiceParser \<Rightarrow> part list \<Rightarrow> generate_request" where
  "build_request self ps =
     \<lparr>rq_model = model self,
      rq_contents = [\<lparr>role = ''user'', parts = ps @ [Part_from_text user_prompt]\<rparr>],
      rq_config =
        \<lparr>temperature = 0x3FC999999999999A,
         thinking_budget = 0,
         response_mime_type = ''application/json'',
         response_schema = InvoiceResponse,
         system_instruction = [Part_from_text system_message]\<rparr>\<rparr>"

text \<open>
  Lines 165 to 179, on the reply: \<open>response.text[:300]\<close> raises when the text is
  \<open>None\<close>, and every exception in the block, like a false \<open>json_response\<close>, ends in
  \<open>return None\<close>. Otherwise the repaired value is returned as it is.
\<close>

definition parse_response :: "('c, 'w) env \<Rightarrow> generate_response \<Rightarrow> pyval" where
  "parse_response env response =
     (case response_text response of
        Inl e \<Rightarrow> PNone
      | Inr None \<Rightarrow> PNone
      | Inr (Some txt) \<Rightarrow>
          (let json_response = parse_json env txt
           in if \<not> truthy json_response then PNone else json_response))"

text \<open>
  \<open>extract_invoice(self, b64_images)\<close>: decode, call the model once, parse the reply.
  Each of the three steps returns \<open>None\<close> on any exception. Log records are not part of
  the model.
\<close>

definition extract_invoice ::
  "('c, 'w) env \<Rightarrow> 'c InvoiceParser \<Rightarrow> string list \<Rightarrow> 'w \<Rightarrow> pyval \<times> 'w" where
  "extract_invoice env self b64_images w =
     (case decode_parts (b64decode env) b64_images of
        Inl e \<Rightarrow> (PNone, w)
      | Inr ps \<Rightarrow>
          (case generate_content env (client self) (build_request self ps) w of
             (Inl e, w') \<Rightarrow> (PNone, w')
           | (Inr response, w') \<Rightarrow> (parse_response env response, w')))"

text \<open>The endpoint of api.py, calling the module's \<open>parser\<close>.\<close>

definition process_invoice ::
  "('c, 'w) env \<Rightarrow> 'c InvoiceParser \<Rightarrow> ImagesRequest \<Rightarrow> 'w \<Rightarrow> (exn + pyval) \<times> 'w" where
  "process_invoice env parser =
     process_invoice_with
       (\<lambda>b64_images w. case extract_invoice env parser b64_images w of (v, w') \<Rightarrow> (Inr v, w'))"

subsection \<open>The response schema\<close>

text \<open>
  \<open>len(s)\<close> of a Python \<open>str\<close>: the number of its characters. In the UTF-8 bytes of
  the text these are the bytes that do not continue a character (the continuation
  bytes are those from 0x80 to 0xBF).
\<close>

definition py_len :: "string \<Rightarrow> nat" where
  "py_len s =
     length (filter (\<lambda>c. \<not> (128 \<le> (of_char c :: nat) \<and> (of_char c :: nat) < 192)) s)"

text \<open>
  A field of type \<open>str\<close> with \<open>min_length\<close> and \<open>max_length\<close>: the value is a string
  whose number of characters is within the bounds.
\<close>

definition is_str :: "nat \<Rightarrow> nat option \<Rightarrow> pyval \<Rightarrow> bool" where
  "is_str min_length max_length v =
     (case v of
        PStr s \<Rightarrow> min_length \<le> py_len s \<and>
                  (case max_length of None \<Rightarrow> True | Some m \<Rightarrow> py_len s \<le> m)
      | _ \<Rightarrow> False)"

text \<open>A required field (\<open>Field(...)\<close>) of a dict with distinct keys: present and valid.\<close>

definition required :: "(string \<times> pyval) list \<Rightarrow> string \<Rightarrow> (pyval \<Rightarrow> bool) \<Rightarrow> bool" where
  "required kvs k ok = (case map_of kvs k of None \<Rightarrow> False | Some v \<Rightarrow> ok v)"

text \<open>
  What the schema asks of the invoice date, lines 55 to 61 and 68 to 69 of
  invoice_parser.py: \<open>InvoiceData\<close> has the required field
  \<open>date: Optional[str] = Field(..., min_length=8, max_length=10)\<close>, so the value is
  \<open>None\<close> or a string of 8 to 10 characters, and \<open>InvoiceResponse\<close> has the required
  field \<open>data: InvoiceData\<close>. Every value that matches the schema \<open>{"data": Invoice}\<close>
  meets \<open>InvoiceResponse_date\<close>; what the schema asks of \<open>products\<close> is not modelled.
\<close>

definition InvoiceData_date :: "pyval \<Rightarrow> bool" where
  "InvoiceData_date v =
     (case v of
        PDict kvs \<Rightarrow> required kvs ''date'' (\<lambda>d. d = PNone \<or> is_str 8 (Some 10) d)
      | _ \<Rightarrow> False)"

definition InvoiceResponse_date :: "pyval \<Rightarrow> bool" where
  "InvoiceResponse_date v =
     (case v of PDict kvs \<Rightarrow> required kvs ''data'' InvoiceData_date | _ \<Rightarrow> False)"

section \<open>Test doubles\<close>

text \<open>
  A stub of the outside, for concrete runs: the decoder accepts only \<open>AAAA\<close> (three zero
  bytes), the client is a unit value, the model answers every request with the same
  text and counts its calls in the world, and the repair maps that text to a given
  outcome.
\<close>

definition stub_b64decode :: "string \<Rightarrow> exn + bytes" where
  "stub_b64decode s =
     (if s = ''AAAA'' then Inr [0, 0, 0]
      else Inl (Error ''binascii.Error'' ''Incorrect padding''))"

definition stub_env :: "string \<Rightarrow> exn + pyval \<Rightarrow> (unit, nat) env" where
  "stub_env reply repaired =
     \<lparr>b64decode = stub_b64decode,
      genai_Client = (\<lambda>k n. (Inr (), n)),
      generate_content = (\<lambda>c rq n. (Inr \<lparr>response_text = Inr (Some reply)\<rparr>, Suc n)),
      json_repair_loads =
        (\<lambda>txt. if txt = reply then repaired
               else Inl (Error ''ValueError'' ''unexpected text''))\<rparr>"

definition stub_parser :: "unit InvoiceParser" where
  "stub_parser = \<lparr>api_key = ''test-key'', client = (), model = default_model\<rparr>"

text \<open>An adapter that raises a given exception, and one that returns a given value.\<close>

definition raising_adapter :: "exn \<Rightarrow> string list \<Rightarrow> nat \<Rightarrow> (exn + pyval) \<times> nat" where
  "raising_adapter e b64_images n = (Inl e, Suc n)"

definition returning_adapter :: "pyval \<Rightarrow> string list \<Rightarrow> nat \<Rightarrow> (exn + pyval) \<times> nat" where
  "returning_adapter v b64_images n = (Inr v, Suc n)"

text \<open>An adapter that returns the list of images it was given.\<close>

definition echo_adapter :: "string list \<Rightarrow> nat \<Rightarrow> (exn + pyval) \<times> nat" where
  "echo_adapter b64_images n = (Inr (PList (map PStr b64_images)), Suc n)"


text \<open>
  For stating properties: the text of the model's reply in a call of \<open>extract_invoice\<close>,
  when the images decode, the call to the model returns and \<open>response.text\<close> is a
  string; \<open>None\<close> when the call does not get that far.
\<close>

definition reply_text ::
  "('c, 'w) env \<Rightarrow> 'c InvoiceParser \<Rightarrow> string list \<Rightarrow> 'w \<Rightarrow> string option" where
  "reply_text env self b64_images w =
     (case decode_parts (b64decode env) b64_images of
        Inl e \<Rightarrow> None
      | Inr ps \<Rightarrow>
          (case fst (generate_content env (client self) (build_request self ps) w) of
             Inl e \<Rightarrow> None
           | Inr response \<Rightarrow>
               (case response_text response of
                  Inl e \<Rightarrow> None
                | Inr None \<Rightarrow> None
                | Inr (Some txt) \<Rightarrow> Some txt)))"

text \<open>A reply whose date is too short for the schema, and the value it denotes.\<close>

definition short_date_reply :: string where
  \<open>short_date_reply = ''{"data": {"date": "2024", "products": []}}''\<close>

definition short_date_value :: pyval where
  "short_date_value =
     PDict [(''data'', PDict [(''date'', PStr ''2024''), (''products'', PList [])])]"

section \<open>The JSON repair pass\<close>

text \<open>
  Modelled from the spec: \<open>json_repair.loads\<close>, the repair library that \<open>parse_json\<close>
  calls and that is not part of src/. The spec describes it as a lenient parse pass that
  tolerates near-valid JSON (trailing commas, stray text, minor syntax slips) and that
  may yield nothing usable. The model reads the text in two steps, a lexer and a stack
  of open containers: separators carry no information and are skipped, so a trailing
  comma changes nothing; words that are no JSON literal are stray text and are dropped;
  the first complete top-level value is the result; containers still open at the end
  of the text are closed there; and a text that holds no value gives the empty string.
  Turning a number with a fraction or an exponent into a double is a parameter,
  \<open>to_float\<close>.
\<close>

datatype token = Open_Dict | Close_Dict | Open_List | Close_List | Separator | Atom pyval

text \<open>Modelled from the spec: decimal digits and integer literals of the repair pass.\<close>

definition is_digit :: "char \<Rightarrow> bool" where
  "is_digit c = (c \<in> set ''0123456789'')"

definition digit_value :: "char \<Rightarrow> int" where
  "digit_value c = int (length (takeWhile (\<lambda>d. d \<noteq> c) ''0123456789''))"

definition digits_value :: "string \<Rightarrow> int" where
  "digits_value ds = foldl (\<lambda>n c. 10 * n + digit_value c) 0 ds"

definition drop_char :: "string \<Rightarrow> string \<Rightarrow> string" where
  "drop_char cs s = (case s of [] \<Rightarrow> [] | c # r \<Rightarrow> if c \<in> set cs then r else s)"

definition is_int_literal :: "string \<Rightarrow> bool" where
  "is_int_literal w = (let ds = drop_char ''-'' w in ds \<noteq> [] \<and> list_all is_digit ds)"

definition int_of_literal :: "string \<Rightarrow> int" where
  "int_of_literal w =
     (case w of
        [] \<Rightarrow> 0
      | c # r \<Rightarrow> if c = CHR ''-'' then - digits_value r else digits_value w)"

text \<open>
  Modelled from the spec: the JSON number grammar of the repair pass, an optional sign,
  digits, an optional fraction and an optional exponent.
\<close>

definition skip_digits :: "string \<Rightarrow> string option" where
  "skip_digits s = (if takeWhile is_digit s = [] then None else Some (dropWhile is_digit s))"

definition is_number_literal :: "string \<Rightarrow> bool" where
  "is_number_literal w =
     (case skip_digits (drop_char ''-'' w) of
        None \<Rightarrow> False
      | Some r1 \<Rightarrow>
          (case (case r1 of
                   [] \<Rightarrow> Some r1
                 | c # r \<Rightarrow> if c = CHR ''.'' then skip_digits r else Some r1) of
             None \<Rightarrow> False
           | Some r2 \<Rightarrow>
               (case r2 of
                  [] \<Rightarrow> True
                | c # r \<Rightarrow> c \<in> set ''eE'' \<and> skip_digits (drop_char ''+-'' r) = Some [])))"

text \<open>
  Modelled from the spec: a word outside a string is a literal, a number, or stray text
  that the repair pass drops.
\<close>

definition word_tokens :: "(string \<Rightarrow> 64 word) \<Rightarrow> string \<Rightarrow> token list" where
  "word_tokens to_float w =
     (if w = ''true'' then [Atom (PBool True)]
      else if w = ''false'' then [Atom (PBool False)]
      else if w = ''null'' then [Atom PNone]
      else if is_int_literal w then [Atom (PInt (int_of_literal w))]
      else if is_number_literal w then [Atom (PFloat (to_float w))]
      else [])"

text \<open>
  Modelled from the spec: the lexer of the repair pass, one character at a time. The
  escapes of one character are decoded; any other escape is kept as it is written.
\<close>

datatype lexmode = Between | In_String string | In_Escape string | In_Word string

definition unescape :: "char \<Rightarrow> string" where
  "unescape c =
     (if c = CHR ''n'' then [CHR 0x0A]
      else if c = CHR ''t'' then [CHR 0x09]
      else if c = CHR ''r'' then [CHR 0x0D]
      else if c = CHR ''b'' then [CHR 0x08]
      else if c = CHR ''f'' then [CHR 0x0C]
      else if c \<in> set [CHR 0x22, CHR 0x5C, CHR ''/''] then [c]
      else [CHR 0x5C, c])"

definition between :: "char \<Rightarrow> token list \<times> lexmode" where
  "between c =
     (if c = CHR 0x22 then ([], In_String [])
      else if c = CHR ''{'' then ([Open_Dict], Between)
      else if c = CHR ''}'' then ([Close_Dict], Between)
      else if c = CHR ''['' then ([Open_List], Between)
      else if c = CHR '']'' then ([Close_List], Between)
      else if c \<in> set '',:'' then ([Separator], Between)
      else if c \<in> set [CHR '' '', CHR 0x09, CHR 0x0A, CHR 0x0D] then ([], Between)
      else ([], In_Word [c]))"

fun lex_char :: "(string \<Rightarrow> 64 word) \<Rightarrow> lexmode \<Rightarrow> char \<Rightarrow> token list \<times> lexmode" where
  "lex_char to_float Between c = between c"
| "lex_char to_float (In_String acc) c =
     (if c = CHR 0x22 then ([Atom (PStr acc)], Between)
      else if c = CHR 0x5C then ([], In_Escape acc)
      else ([], In_String (acc @ [c])))"
| "lex_char to_float (In_Escape acc) c = ([], In_String (acc @ unescape c))"
| "lex_char to_float (In_Word acc) c =
     (case between c of
        (ts, In_Word w) \<Rightarrow> ([], In_Word (acc @ [c]))
      | (ts, m) \<Rightarrow> (word_tokens to_float acc @ ts, m))"

fun lex :: "(string \<Rightarrow> 64 word) \<Rightarrow> lexmode \<Rightarrow> string \<Rightarrow> token list" where
  "lex to_float m [] =
     (case m of
        Between \<Rightarrow> []
      | In_String acc \<Rightarrow> [Atom (PStr acc)]
      | In_Escape acc \<Rightarrow> [Atom (PStr acc)]
      | In_Word acc \<Rightarrow> word_tokens to_float acc)"
| "lex to_float m (c # cs) =
     (case lex_char to_float m c of (ts, m') \<Rightarrow> ts @ lex to_float m' cs)"

text \<open>
  Modelled from the spec: the containers of the repair pass that are still open, the
  innermost first. A dict holds its items and the key that waits for its value; a value
  that arrives where a key is expected is a key when it is a string and is dropped
  otherwise; a key that comes again replaces the value, as a Python dict does.
\<close>

datatype frame = In_List "pyval list" | In_Dict "(string \<times> pyval) list" "string option"

fun put :: "pyval \<Rightarrow> frame \<Rightarrow> frame" where
  "put v (In_List xs) = In_List (xs @ [v])"
| "put v (In_Dict kvs (Some k)) = In_Dict (AList.update k v kvs) None"
| "put (PStr s) (In_Dict kvs None) = In_Dict kvs (Some s)"
| "put v (In_Dict kvs None) = In_Dict kvs None"

fun close :: "frame \<Rightarrow> pyval" where
  "close (In_List xs) = PList xs"
| "close (In_Dict kvs k) = PDict kvs"

text \<open>
  Modelled from the spec: the parser of the repair pass, one token at a time. A closing
  bracket closes the innermost container when it is of that kind and is skipped
  otherwise; once the top-level value is complete the rest of the text is ignored.
\<close>

datatype pstate = Parsing "frame list" | Done pyval

fun deliver :: "pyval \<Rightarrow> frame list \<Rightarrow> pstate" where
  "deliver v [] = Done v"
| "deliver v (f # st) = Parsing (put v f # st)"

fun step :: "pstate \<Rightarrow> token \<Rightarrow> pstate" where
  "step (Done r) t = Done r"
| "step (Parsing st) Open_Dict = Parsing (In_Dict [] None # st)"
| "step (Parsing st) Open_List = Parsing (In_List [] # st)"
| "step (Parsing (In_Dict kvs k # st)) Close_Dict = deliver (PDict kvs) st"
| "step (Parsing (In_List xs # st)) Close_List = deliver (PList xs) st"
| "step (Parsing st) Close_Dict = Parsing st"
| "step (Parsing st) Close_List = Parsing st"
| "step (Parsing st) Separator = Parsing st"
| "step (Parsing st) (Atom v) = deliver v st"

text \<open>
  Modelled from the spec: the end of the text in the repair pass. Containers still open
  are closed from the inside out; with nothing read the result is the empty string.
\<close>

fun unwind :: "pyval \<Rightarrow> frame list \<Rightarrow> pyval" where
  "unwind v [] = v"
| "unwind v (f # st) = unwind (close (put v f)) st"

fun finish :: "pstate \<Rightarrow> pyval" where
  "finish (Done r) = r"
| "finish (Parsing []) = PStr []"
| "finish (Parsing (f # st)) = unwind (close f) st"

text \<open>Modelled from the spec: \<open>json_repair.loads\<close> as a whole.\<close>

definition lenient_loads :: "(string \<Rightarrow> 64 word) \<Rightarrow> string \<Rightarrow> pyval" where
  "lenient_loads to_float txt = finish (foldl step (Parsing []) (lex to_float Between txt))"

text \<open>The two replies of the trailing-comma example.\<close>

definition trailing_comma_reply :: string where
  \<open>trailing_comma_reply = ''{"date":"01-01-2024","products":[],}''\<close>

definition plain_reply :: string where
  \<open>plain_reply = ''{"date":"01-01-2024","products":[]}''\<close>



section \<open>Properties of the endpoint\<close>

subsection \<open>Splitting off the data-URI prefix\<close>

lemma py_split_not_Nil: "py_split sep s \<noteq> []"
  by (induction s) (auto split: list.splits)

lemma py_split_no_sep: "sep \<notin> set s \<Longrightarrow> py_split sep s = [s]"
  by (induction s) auto

lemma py_split_two_fields: "tl (py_split sep (pre @ sep # suf)) \<noteq> []"
  by (induction pre) (auto simp: py_split_not_Nil split: list.splits)

lemma last_py_split_append:
  "last (py_split sep (pre @ sep # suf)) = last (py_split sep suf)"
proof (induction pre)
  case Nil
  then show ?case by (simp add: py_split_not_Nil)
next
  case (Cons a pre)
  show ?case
  proof (cases "a = sep")
    case True
    then show ?thesis using Cons by (simp add: py_split_not_Nil)
  next
    case False
    obtain p ps where ps: "py_split sep (pre @ sep # suf) = p # ps"
      using py_split_not_Nil [of sep "pre @ sep # suf"]
      by (cases "py_split sep (pre @ sep # suf)") auto
    have "ps \<noteq> []"
      using py_split_two_fields [of sep pre suf] ps by simp
    then show ?thesis using Cons False ps by simp
  qed
qed

lemma b64_image_of_after_last_comma:
  "CHR '','' \<notin> set suf \<Longrightarrow> image request = pre @ CHR '','' # suf
     \<Longrightarrow> b64_image_of request = Inr suf"
  by (simp add: b64_image_of_def py_index_last_def py_split_not_Nil
        last_py_split_append py_split_no_sep)

lemma b64_image_of_no_comma:
  "CHR '','' \<notin> set (image request) \<Longrightarrow> b64_image_of request = Inr (image request)"
  by (simp add: b64_image_of_def)

text \<open>Every string with a comma splits at its last comma, so the first case covers them all.\<close>

lemma last_comma_exists:
  "CHR '','' \<in> set s \<Longrightarrow> \<exists>pre suf. s = pre @ CHR '','' # suf \<and> CHR '','' \<notin> set suf"
  by (rule split_list_last)

text \<open>Line 19 never raises: \<open>split\<close> gives at least one field.\<close>

lemma b64_image_of_total: "\<exists>b. b64_image_of request = Inr b"
  by (simp add: b64_image_of_def py_index_last_def py_split_not_Nil)

text \<open>
  C4: when the request's image string contains a comma, that is, it reads
  \<open>pre , suf\<close> with no comma in \<open>suf\<close>, the endpoint calls the adapter on the one-element
  list \<open>[suf]\<close>, the substring after the last comma; when it contains no comma, the
  endpoint calls the adapter on the string unchanged. In both cases the response is
  what the \<open>try\<close> block makes of that call.
\<close>

theorem data_uri_prefix_stripped:
  "(CHR '','' \<notin> set suf \<and> image request = pre @ CHR '','' # suf \<longrightarrow>
      process_invoice_with adapter request w =
        (process_block (fst (adapter [suf] w)), snd (adapter [suf] w)))
   \<and> (CHR '','' \<notin> set (image request) \<longrightarrow>
      process_invoice_with adapter request w =
        (process_block (fst (adapter [image request] w)),
         snd (adapter [image request] w)))"
  by (auto simp: process_invoice_with_def b64_image_of_after_last_comma
        b64_image_of_no_comma split: prod.splits)

theorem data_uri_prefix_stripped_witness:
  "CHR '','' \<notin> set ''AAAA''
   \<and> image \<lparr>image = ''data:image/jpeg;base64,AAAA''\<rparr> = ''data:image/jpeg;base64'' @ CHR '','' # ''AAAA''
   \<and> process_invoice_with echo_adapter \<lparr>image = ''data:image/jpeg;base64,AAAA''\<rparr> 0
       = (Inr (PList [PStr ''AAAA'']), 1)
   \<and> CHR '','' \<notin> set (image \<lparr>image = ''QUJD''\<rparr>)
   \<and> process_invoice_with echo_adapter \<lparr>image = ''QUJD''\<rparr> 0
       = (Inr (PList [PStr ''QUJD'']), 1)"
  using data_uri_prefix_stripped [of "''AAAA''" "\<lparr>image = ''data:image/jpeg;base64,AAAA''\<rparr>"
      "''data:image/jpeg;base64''" echo_adapter 0]
    data_uri_prefix_stripped [of "''AAAA''" "\<lparr>image = ''QUJD''\<rparr>"
      "''data:image/jpeg;base64''" echo_adapter 0]
  by (simp add: echo_adapter_def process_block_def try_except_def try_body_def)

subsection \<open>The \<open>try\<close> block\<close>

lemma process_block_raise:
  "try_body call = Inl e
     \<Longrightarrow> process_block call = Inl (HTTPException 500 ''Internal server error'')"
  by (simp add: process_block_def try_except_def)

lemma process_block_falsy:
  "\<not> truthy v \<Longrightarrow> process_block (Inr v) = Inl (HTTPException 500 ''Internal server error'')"
  by (simp add: process_block_def try_except_def try_body_def)

lemma process_block_truthy: "truthy v \<Longrightarrow> process_block (Inr v) = Inr v"
  by (simp add: process_block_def try_except_def try_body_def)

lemma process_invoice_eq:
  "b64_image_of request = Inr b \<Longrightarrow>
   process_invoice env parser request w =
     (process_block (Inr (fst (extract_invoice env parser [b] w))),
      snd (extract_invoice env parser [b] w))"
  by (simp add: process_invoice_def process_invoice_with_def split: prod.splits)

text \<open>
  C1: the claim is that an adapter call which returns a null or empty result is answered
  with HTTP 500 and the detail "Invoice processing failed". Run on an adapter that
  returns \<open>None\<close>, the endpoint raises the exception of line 24 inside its own \<open>try\<close>,
  the \<open>except Exception\<close> clause catches it, and the response is HTTP 500 with the detail
  "Internal server error" instead. The same happens with \<open>extract_invoice\<close> as the
  adapter, on a request whose image does not decode.
\<close>

theorem empty_result_detail:
  "process_invoice_with (returning_adapter PNone) \<lparr>image = ''AAAA''\<rparr> 0
     = (Inl (HTTPException 500 ''Internal server error''), 1)
   \<and> respond (fst (process_invoice_with (returning_adapter PNone) \<lparr>image = ''AAAA''\<rparr> 0))
     = \<lparr>status = 500, body = PDict [(''detail'', PStr ''Internal server error'')]\<rparr>
   \<and> respond (fst (process_invoice_with (returning_adapter PNone) \<lparr>image = ''AAAA''\<rparr> 0))
     \<noteq> \<lparr>status = 500, body = PDict [(''detail'', PStr ''Invoice processing failed'')]\<rparr>
   \<and> extract_invoice (stub_env ''{}'' (Inr (PDict []))) stub_parser [''AAA''] 0 = (PNone, 0)
   \<and> respond (fst (process_invoice (stub_env ''{}'' (Inr (PDict []))) stub_parser
         \<lparr>image = ''AAA''\<rparr> 0))
     = \<lparr>status = 500, body = PDict [(''detail'', PStr ''Internal server error'')]\<rparr>"
  by (simp add: process_invoice_def process_invoice_with_def b64_image_of_def
        returning_adapter_def process_block_def try_except_def try_body_def respond_def
        extract_invoice_def stub_env_def stub_b64decode_def)

text \<open>
  C3: whenever the body of the \<open>try\<close> block raises an exception \<open>e\<close>, be it one that
  escapes the adapter call or the one raised on a false result, the response is HTTP 500
  with the body \<open>{"detail": "Internal server error"}\<close>. The response is this one fixed
  value for every \<open>e\<close>: neither the class nor the message of \<open>e\<close> has any part in it.
\<close>

theorem exception_gives_fixed_500:
  assumes "b64_image_of request = Inr b"
    and "try_body (fst (adapter [b] w)) = Inl e"
  shows "respond (fst (process_invoice_with adapter request w))
     = \<lparr>status = 500, body = PDict [(''detail'', PStr ''Internal server error'')]\<rparr>"
proof -
  obtain call w' where c: "adapter [b] w = (call, w')"
    by (cases "adapter [b] w")
  with assms have "process_block call = Inl (HTTPException 500 ''Internal server error'')"
    by (simp add: process_block_raise)
  with assms c show ?thesis
    by (simp add: process_invoice_with_def respond_def)
qed

theorem exception_gives_fixed_500_witness:
  "b64_image_of \<lparr>image = ''AAAA''\<rparr> = Inr ''AAAA''
   \<and> try_body (fst (raising_adapter (Error ''RuntimeError'' ''quota exceeded for key sk-123'')
         [''AAAA''] 0))
       = Inl (Error ''RuntimeError'' ''quota exceeded for key sk-123'')
   \<and> respond (fst (process_invoice_with
         (raising_adapter (Error ''RuntimeError'' ''quota exceeded for key sk-123''))
         \<lparr>image = ''AAAA''\<rparr> 0))
       = \<lparr>status = 500, body = PDict [(''detail'', PStr ''Internal server error'')]\<rparr>"
proof -
  have a: "b64_image_of \<lparr>image = ''AAAA''\<rparr> = Inr ''AAAA''"
    by (simp add: b64_image_of_def)
  have b: "try_body (fst (raising_adapter
              (Error ''RuntimeError'' ''quota exceeded for key sk-123'') [''AAAA''] 0))
       = Inl (Error ''RuntimeError'' ''quota exceeded for key sk-123'')"
    by (simp add: try_body_def raising_adapter_def)
  show ?thesis
    using a b
      exception_gives_fixed_500 [of "\<lparr>image = ''AAAA''\<rparr>" "''AAAA''"
        "raising_adapter (Error ''RuntimeError'' ''quota exceeded for key sk-123'')" 0
        "Error ''RuntimeError'' ''quota exceeded for key sk-123''"]
    by simp
qed

section \<open>Properties of the adapter\<close>

subsection \<open>Images that do not decode\<close>

lemma decode_parts_fails:
  "img \<in> set b64_images \<Longrightarrow> dec img = Inl e \<Longrightarrow> \<exists>e'. decode_parts dec b64_images = Inl e'"
  by (induction b64_images) (auto split: sum.splits)

text \<open>
  C5: when some image of the input list makes \<open>base64.b64decode\<close> raise,
  \<open>extract_invoice\<close> returns \<open>None\<close> (and the model has not been called: the world is
  unchanged); and when the payload of a request makes it raise, the endpoint answers
  HTTP 500, not HTTP 200.
\<close>

theorem decode_failure_is_500:
  "(img \<in> set b64_images \<and> b64decode env img = Inl e \<longrightarrow>
      extract_invoice env self b64_images w = (PNone, w))
   \<and> (b64_image_of request = Inr b \<and> b64decode env b = Inl e \<longrightarrow>
      respond (fst (process_invoice env self request w))
        = \<lparr>status = 500, body = PDict [(''detail'', PStr ''Internal server error'')]\<rparr>)"
proof -
  have ex: "extract_invoice env self imgs w = (PNone, w)"
    if "i \<in> set imgs" "b64decode env i = Inl e" for imgs i
    using decode_parts_fails [of i imgs "b64decode env" e] that
    by (auto simp: extract_invoice_def)
  show ?thesis
    by (auto simp: ex process_invoice_eq process_block_falsy respond_def)
qed

theorem decode_failure_is_500_witness:
  "''AAA'' \<in> set [''AAAA'', ''AAA'']
   \<and> b64decode (stub_env ''{}'' (Inr (PDict []))) ''AAA''
       = Inl (Error ''binascii.Error'' ''Incorrect padding'')
   \<and> extract_invoice (stub_env ''{}'' (Inr (PDict []))) stub_parser [''AAAA'', ''AAA''] 0
       = (PNone, 0)
   \<and> b64_image_of \<lparr>image = ''data:image/jpeg;base64,AAA''\<rparr> = Inr ''AAA''
   \<and> respond (fst (process_invoice (stub_env ''{}'' (Inr (PDict []))) stub_parser
         \<lparr>image = ''data:image/jpeg;base64,AAA''\<rparr> 0))
       = \<lparr>status = 500, body = PDict [(''detail'', PStr ''Internal server error'')]\<rparr>"
proof -
  have a: "b64decode (stub_env ''{}'' (Inr (PDict []))) ''AAA''
       = Inl (Error ''binascii.Error'' ''Incorrect padding'')"
    by (simp add: stub_env_def stub_b64decode_def)
  have b: "b64_image_of \<lparr>image = ''data:image/jpeg;base64,AAA''\<rparr> = Inr ''AAA''"
    by (simp add: b64_image_of_def py_index_last_def)
  show ?thesis
    using a b
      decode_failure_is_500 [of "''AAA''" "[''AAAA'', ''AAA'']" "stub_env ''{}'' (Inr (PDict []))"
        "Error ''binascii.Error'' ''Incorrect padding''" stub_parser 0
        "\<lparr>image = ''data:image/jpeg;base64,AAA''\<rparr>" "''AAA''"]
    by simp
qed


subsection \<open>From the model's reply to the result\<close>

lemma extract_invoice_reply:
  "reply_text env self b64_images w = Some txt \<Longrightarrow>
   fst (extract_invoice env self b64_images w) =
     (if truthy (parse_json env txt) then parse_json env txt else PNone)"
  by (auto simp: reply_text_def extract_invoice_def parse_response_def Let_def
        split: sum.splits prod.splits option.splits)

lemma stub_reply_text:
  "reply_text (stub_env reply repaired) stub_parser [''AAAA''] n = Some reply"
  by (simp add: reply_text_def stub_env_def stub_b64decode_def)

lemma stub_parse_json:
  "parse_json (stub_env reply repaired) reply = (case repaired of Inl e \<Rightarrow> PNone | Inr v \<Rightarrow> v)"
  by (simp add: parse_json_def stub_env_def)

lemma stub_world:
  "snd (extract_invoice (stub_env reply repaired) stub_parser [''AAAA''] n) = Suc n"
  by (simp add: extract_invoice_def stub_env_def stub_b64decode_def)

lemma b64_image_of_plain: "b64_image_of \<lparr>image = ''AAAA''\<rparr> = Inr ''AAAA''"
  by (simp add: b64_image_of_def)



text \<open>In the modelled repair pass the empty reply gives the empty string, a false value.\<close>

lemma empty_reply_unusable:
  "\<not> truthy (parse_json
        (env\<lparr>json_repair_loads := \<lambda>txt. Inr (lenient_loads to_float txt)\<rparr>) [])"
  by (simp add: parse_json_def lenient_loads_def)




text \<open>
  C10: when the repair of the model's reply succeeds and yields a false value,
  \<open>extract_invoice\<close> returns \<open>None\<close> and the endpoint answers HTTP 500. The values of the
  JSON documents \<open>{}\<close>, \<open>[]\<close>, \<open>""\<close>, \<open>0\<close>, \<open>false\<close> and \<open>null\<close> are all false.
\<close>

theorem falsy_repair_is_failure:
  "(reply_text env self b64_images w = Some txt \<and> json_repair_loads env txt = Inr v
      \<and> \<not> truthy v
      \<longrightarrow> fst (extract_invoice env self b64_images w) = PNone
        \<and> (b64_image_of request = Inr b \<and> b64_images = [b] \<longrightarrow>
             respond (fst (process_invoice env self request w))
               = \<lparr>status = 500,
                  body = PDict [(''detail'', PStr ''Internal server error'')]\<rparr>))
   \<and> (\<forall>v \<in> set [PDict [], PList [], PStr [], PInt 0, PBool False, PNone]. \<not> truthy v)"
  by (auto simp: extract_invoice_reply parse_json_def process_invoice_eq
        process_block_falsy respond_def)

theorem falsy_repair_is_failure_witness:
  "reply_text (stub_env ''{}'' (Inr (PDict []))) stub_parser [''AAAA''] 0 = Some ''{}''
   \<and> json_repair_loads (stub_env ''{}'' (Inr (PDict []))) ''{}'' = Inr (PDict [])
   \<and> \<not> truthy (PDict [])
   \<and> fst (extract_invoice (stub_env ''{}'' (Inr (PDict []))) stub_parser [''AAAA''] 0) = PNone
   \<and> b64_image_of \<lparr>image = ''AAAA''\<rparr> = Inr ''AAAA''
   \<and> respond (fst (process_invoice (stub_env ''{}'' (Inr (PDict []))) stub_parser
         \<lparr>image = ''AAAA''\<rparr> 0))
       = \<lparr>status = 500, body = PDict [(''detail'', PStr ''Internal server error'')]\<rparr>
   \<and> PInt 0 \<in> set [PDict [], PList [], PStr [], PInt 0, PBool False, PNone]
   \<and> \<not> truthy (PInt 0)"
proof -
  have a: "json_repair_loads (stub_env ''{}'' (Inr (PDict []))) ''{}'' = Inr (PDict [])"
    by (simp add: stub_env_def)
  show ?thesis
    using a
      falsy_repair_is_failure [of "stub_env ''{}'' (Inr (PDict []))" stub_parser "[''AAAA'']" 0
        "''{}''" "PDict []" "\<lparr>image = ''AAAA''\<rparr>" "''AAAA''"]
    by (simp add: stub_reply_text b64_image_of_plain)
qed

text \<open>
  C2, as claimed: every reply whose repair succeeds is checked against the
  \<open>InvoiceResponse\<close> schema before it is returned. It is not: for the reply
  \<open>{"data": {"date": "2024", "products": []}}\<close>, whose date is shorter than the eight
  characters the schema asks for, \<open>extract_invoice\<close> returns the repaired value and the
  endpoint sends it with HTTP 200.
\<close>

theorem repaired_reply_not_validated:
  "json_repair_loads (stub_env short_date_reply (Inr short_date_value)) short_date_reply
       = Inr short_date_value
   \<and> fst (extract_invoice (stub_env short_date_reply (Inr short_date_value)) stub_parser
         [''AAAA''] 0)
       = short_date_value
   \<and> \<not> InvoiceResponse_date short_date_value
   \<and> respond (fst (process_invoice (stub_env short_date_reply (Inr short_date_value))
         stub_parser \<lparr>image = ''AAAA''\<rparr> 0))
       = \<lparr>status = 200, body = short_date_value\<rparr>"
proof -
  have t: "truthy short_date_value"
    by (simp add: short_date_value_def)
  have v: "\<not> InvoiceResponse_date short_date_value"
    by (simp add: short_date_value_def InvoiceResponse_date_def InvoiceData_date_def
          required_def is_str_def py_len_def)
  have e: "fst (extract_invoice (stub_env short_date_reply (Inr short_date_value)) stub_parser
         [''AAAA''] 0) = short_date_value"
    using t by (simp add: extract_invoice_reply [OF stub_reply_text] stub_parse_json)
  show ?thesis
    using t v e
    by (simp add: process_invoice_eq [OF b64_image_of_plain] process_block_truthy respond_def)
      (simp add: stub_env_def)
qed

text \<open>
  C2, amended: every reply whose repair succeeds with a true value is returned by
  \<open>extract_invoice\<close> exactly as repaired, whether or not it matches the schema.
\<close>

theorem repaired_reply_returned_as_is:
  assumes "reply_text env self b64_images w = Some txt"
    and "json_repair_loads env txt = Inr v"
    and "truthy v"
  shows "fst (extract_invoice env self b64_images w) = v"
  using assms
  by (simp add: extract_invoice_reply parse_json_def)

theorem repaired_reply_returned_as_is_witness:
  "reply_text (stub_env short_date_reply (Inr short_date_value)) stub_parser [''AAAA''] 0
       = Some short_date_reply
   \<and> json_repair_loads (stub_env short_date_reply (Inr short_date_value)) short_date_reply
       = Inr short_date_value
   \<and> truthy short_date_value
   \<and> fst (extract_invoice (stub_env short_date_reply (Inr short_date_value)) stub_parser
         [''AAAA''] 0) = short_date_value"
proof -
  have a: "json_repair_loads (stub_env short_date_reply (Inr short_date_value))
       short_date_reply = Inr short_date_value"
    by (simp add: stub_env_def)
  have t: "truthy short_date_value"
    by (simp add: short_date_value_def)
  show ?thesis
    using a t
      repaired_reply_returned_as_is [of "stub_env short_date_reply (Inr short_date_value)"
        stub_parser "[''AAAA'']" 0 short_date_reply short_date_value]
    by (simp add: stub_reply_text)
qed

text \<open>In the modelled repair pass a separator changes nothing, wherever it stands.\<close>

lemma step_Separator: "step s Separator = s"
  by (cases s) simp_all

text \<open>
  C7: with the repair pass modelled from the spec, \<open>parse_json\<close> turns the reply
  \<open>{"date":"01-01-2024","products":[],}\<close>, which has a trailing comma, into the dict
  with the date \<open>01-01-2024\<close> and an empty list of products, the same value that it gives
  for the reply without the comma.
\<close>

theorem trailing_comma_repaired:
  "parse_json (env\<lparr>json_repair_loads := \<lambda>txt. Inr (lenient_loads to_float txt)\<rparr>)
       trailing_comma_reply
     = PDict [(''date'', PStr ''01-01-2024''), (''products'', PList [])]
   \<and> parse_json (env\<lparr>json_repair_loads := \<lambda>txt. Inr (lenient_loads to_float txt)\<rparr>)
       plain_reply
     = PDict [(''date'', PStr ''01-01-2024''), (''products'', PList [])]"
  by (simp add: parse_json_def lenient_loads_def between_def trailing_comma_reply_def
        plain_reply_def)

subsection \<open>Two calls with the same request\<close>

lemma extract_invoice_world:
  assumes "\<forall>c rq wa wb. fst (generate_content env c rq wa) = fst (generate_content env c rq wb)"
  shows "fst (extract_invoice env self b64_images w1)
       = fst (extract_invoice env self b64_images w2)"
proof (cases "decode_parts (b64decode env) b64_images")
  case (Inl e)
  then show ?thesis by (simp add: extract_invoice_def)
next
  case (Inr ps)
  have "fst (generate_content env (client self) (build_request self ps) w1)
      = fst (generate_content env (client self) (build_request self ps) w2)"
    using assms by blast
  then show ?thesis
    using Inr by (auto simp: extract_invoice_def split: prod.splits sum.splits)
qed

text \<open>
  C8: let the external model be deterministic, that is, what \<open>generate_content\<close> returns
  or raises depends on the client and the request only, not on the state of the world.
  Then two invocations of the endpoint with the same request give the same response,
  status and body, in whatever states of the world they run; in particular when the
  second one runs in the world that the first one leaves behind.
\<close>

theorem identical_requests_identical_responses:
  assumes "\<forall>c rq wa wb. fst (generate_content env c rq wa) = fst (generate_content env c rq wb)"
  shows "respond (fst (process_invoice env parser request w1))
       = respond (fst (process_invoice env parser request w2))"
proof -
  obtain b where b: "b64_image_of request = Inr b"
    using b64_image_of_total by blast
  have "fst (extract_invoice env parser [b] w1) = fst (extract_invoice env parser [b] w2)"
    using assms by (rule extract_invoice_world)
  then show ?thesis
    by (simp add: process_invoice_eq [OF b])
qed

theorem identical_requests_identical_responses_witness:
  "(\<forall>c rq wa wb.
       fst (generate_content (stub_env short_date_reply (Inr short_date_value)) c rq wa)
     = fst (generate_content (stub_env short_date_reply (Inr short_date_value)) c rq wb))
   \<and> snd (process_invoice (stub_env short_date_reply (Inr short_date_value)) stub_parser
         \<lparr>image = ''AAAA''\<rparr> 0) = 1
   \<and> respond (fst (process_invoice (stub_env short_date_reply (Inr short_date_value))
         stub_parser \<lparr>image = ''AAAA''\<rparr> 0))
     = respond (fst (process_invoice (stub_env short_date_reply (Inr short_date_value))
         stub_parser \<lparr>image = ''AAAA''\<rparr> 1))"
proof -
  have d: "\<forall>c rq wa wb.
       fst (generate_content (stub_env short_date_reply (Inr short_date_value)) c rq wa)
     = fst (generate_content (stub_env short_date_reply (Inr short_date_value)) c rq wb)"
    by (simp add: stub_env_def)
  have s: "snd (process_invoice (stub_env short_date_reply (Inr short_date_value)) stub_parser
         \<lparr>image = ''AAAA''\<rparr> 0) = 1"
    by (simp add: process_invoice_eq [OF b64_image_of_plain] stub_world)
  show ?thesis
    using d s
      identical_requests_identical_responses [of "stub_env short_date_reply (Inr short_date_value)"
        stub_parser "\<lparr>image = ''AAAA''\<rparr>" 0 1]
    by simp
qed

subsection \<open>Start-up\<close>

text \<open>
  C9: constructing \<open>InvoiceParser\<close> with no \<open>api_key\<close> argument, while \<open>GEMINI_API_KEY\<close>
  is absent from the environment, raises \<open>ValueError\<close>; this holds whatever the client
  library would do, and the world is left as it was: nothing external has been called.
  The module-level \<open>parser = InvoiceParser()\<close> of api.py is such a construction, so the
  service fails when it is loaded.
\<close>

theorem missing_api_key_fails_fast:
  "environ ''GEMINI_API_KEY'' = None \<Longrightarrow>
   InvoiceParser_init env None model_arg environ w
       = (Inl (Error ''ValueError'' ''Gemini API key not provided''), w)
   \<and> api_parser env environ w
       = (Inl (Error ''ValueError'' ''Gemini API key not provided''), w)"
  by (simp add: api_parser_def InvoiceParser_init_def py_or_def)

theorem missing_api_key_fails_fast_witness:
  "[''PATH'' \<mapsto> ''/usr/bin''] ''GEMINI_API_KEY'' = None
   \<and> InvoiceParser_init (stub_env ''{}'' (Inr (PDict []))) None ''gemini-2.5-pro''
         [''PATH'' \<mapsto> ''/usr/bin''] 0
       = (Inl (Error ''ValueError'' ''Gemini API key not provided''), 0)
   \<and> api_parser (stub_env ''{}'' (Inr (PDict []))) [''PATH'' \<mapsto> ''/usr/bin''] 0
       = (Inl (Error ''ValueError'' ''Gemini API key not provided''), 0)"
  using missing_api_key_fails_fast [of "[''PATH'' \<mapsto> ''/usr/bin'']"
      "stub_env ''{}'' (Inr (PDict []))" "''gemini-2.5-pro''" 0]
  by simp

end
